theory Spec2Isabelle
  imports Complex_Main "HOL-Library.State_Monad"
begin

section \<open>The dyslexia screening server (server.py)\<close>

text \<open>
  The module scores a typed response against a reference sentence with four lexical
  heuristics and averages the scores of several attempts. The embedding follows the
  module function by function.

  Conventions of the embedding.
  \<^item> Python's \<open>str\<close> is \<open>string\<close>: a character is a code point below 256
    (Latin-1), and \<open>lower\<close>, \<open>isalnum\<close>, \<open>strip\<close> and \<open>split\<close> are those of
    \<open>str\<close> on these code points. Text with a code point beyond them is outside the
    model.
  \<^item> Scores are Python floats. Every penalty of the scorer is a small whole number, so
    its sums are exact; the scorer computes in \<open>real\<close>, which leaves out only the
    rounding of its final quotient. The scores a client sends for the report are
    arbitrary floats: there the float sum and the float quotient are parameters.
  \<^item> A raised exception is a value \<open>Inl e\<close> of a sum type, and each \<open>try\<close> /
    \<open>except\<close> of the source is a case distinction on that value.
  \<^item> NLTK's \<open>word_tokenize\<close>, the word corpus and the PDF canvas are libraries outside
    the module: they are parameters of the functions that call them.
\<close>

subsection \<open>Text primitives of \<open>str\<close>\<close>

definition ascii_uppercase :: string where
  "ascii_uppercase = ''ABCDEFGHIJKLMNOPQRSTUVWXYZ''"

definition ascii_lowercase :: string where
  "ascii_lowercase = ''abcdefghijklmnopqrstuvwxyz''"

definition digits :: string where
  "digits = ''0123456789''"

text \<open>The upper-case letters of Latin-1 beyond ASCII: 0xC0 to 0xDE without 0xD7.\<close>

definition latin1_uppercase :: string where
  "latin1_uppercase =
     [CHR 0xC0, CHR 0xC1, CHR 0xC2, CHR 0xC3, CHR 0xC4, CHR 0xC5, CHR 0xC6, CHR 0xC7,
      CHR 0xC8, CHR 0xC9, CHR 0xCA, CHR 0xCB, CHR 0xCC, CHR 0xCD, CHR 0xCE, CHR 0xCF,
      CHR 0xD0, CHR 0xD1, CHR 0xD2, CHR 0xD3, CHR 0xD4, CHR 0xD5, CHR 0xD6, CHR 0xD8,
      CHR 0xD9, CHR 0xDA, CHR 0xDB, CHR 0xDC, CHR 0xDD, CHR 0xDE]"

text \<open>Their lower-case forms, 0x20 higher: 0xE0 to 0xFE without 0xF7.\<close>

definition latin1_lowercase :: string where
  "latin1_lowercase =
     [CHR 0xE0, CHR 0xE1, CHR 0xE2, CHR 0xE3, CHR 0xE4, CHR 0xE5, CHR 0xE6, CHR 0xE7,
      CHR 0xE8, CHR 0xE9, CHR 0xEA, CHR 0xEB, CHR 0xEC, CHR 0xED, CHR 0xEE, CHR 0xEF,
      CHR 0xF0, CHR 0xF1, CHR 0xF2, CHR 0xF3, CHR 0xF4, CHR 0xF5, CHR 0xF6, CHR 0xF8,
      CHR 0xF9, CHR 0xFA, CHR 0xFB, CHR 0xFC, CHR 0xFD, CHR 0xFE]"

text \<open>
  The other characters of Latin-1 beyond ASCII that \<open>str.isalnum\<close> accepts: the
  ordinal indicators, the micro sign, the superscript digits, the three fractions and
  the two lower-case letters without an upper-case form in Latin-1.
\<close>

definition latin1_other_alnum :: string where
  "latin1_other_alnum =
     [CHR 0xAA, CHR 0xB2, CHR 0xB3, CHR 0xB5, CHR 0xB9, CHR 0xBA, CHR 0xBC, CHR 0xBD,
      CHR 0xBE, CHR 0xDF, CHR 0xFF]"

text \<open>
  \<open>str.isspace\<close> on one character: blank, the controls 9 to 13 and 28 to 31, next line
  (0x85) and no-break space (0xA0).
\<close>

definition isspace :: "char \<Rightarrow> bool" where
  "isspace c = (c \<in> set [CHR '' '', CHR 0x09, CHR 0x0A, CHR 0x0B, CHR 0x0C, CHR 0x0D,
                       CHR 0x1C, CHR 0x1D, CHR 0x1E, CHR 0x1F, CHR 0x85, CHR 0xA0])"

definition lower_char :: "char \<Rightarrow> char" where
  "lower_char c =
     (case map_of (zip (ascii_uppercase @ latin1_uppercase)
                       (ascii_lowercase @ latin1_lowercase)) c of
        Some l \<Rightarrow> l
      | None \<Rightarrow> c)"

text \<open>\<open>text.lower()\<close>\<close>

definition lower :: "string \<Rightarrow> string" where
  "lower s = map lower_char s"

definition isalnum_char :: "char \<Rightarrow> bool" where
  "isalnum_char c =
     (c \<in> set (ascii_lowercase @ ascii_uppercase @ digits
               @ latin1_uppercase @ latin1_lowercase @ latin1_other_alnum))"

text \<open>\<open>word.isalnum()\<close>: false on the empty string.\<close>

definition isalnum :: "string \<Rightarrow> bool" where
  "isalnum s = (s \<noteq> [] \<and> list_all isalnum_char s)"

text \<open>
  \<open>text.split()\<close> with no separator: the maximal runs of characters that are not white
  space, in order; never an empty string. \<open>cur\<close> is the run being read.
\<close>

fun split_from :: "string \<Rightarrow> string \<Rightarrow> string list" where
  "split_from cur [] = (if cur = [] then [] else [cur])"
| "split_from cur (c # cs) =
     (if isspace c then (if cur = [] then split_from [] cs else cur # split_from [] cs)
      else split_from (cur @ [c]) cs)"

definition str_split :: "string \<Rightarrow> string list" where
  "str_split s = split_from [] s"

text \<open>\<open>text.strip()\<close>: white space removed at both ends.\<close>

definition strip :: "string \<Rightarrow> string" where
  "strip s = rev (dropWhile isspace (rev (dropWhile isspace s)))"

subsection \<open>Module state\<close>

text \<open>
  The module-level names the scorer reads. \<open>english_vocab\<close> is built when the module
  is loaded; the two confusion tables are list literals. All three are ordinary mutable
  Python objects, so they are the state that a call could change.
\<close>

record globals =
  english_vocab :: "string set"
  DYSLEXIC_LETTER_CONFUSIONS :: "(char \<times> char) list"
  DYSLEXIC_WORD_CONFUSIONS :: "string list list"

definition SIMILARITY_THRESHOLD :: nat where
  "SIMILARITY_THRESHOLD = 50"

definition DYSLEXIA_SCORE_THRESHOLD :: real where
  "DYSLEXIA_SCORE_THRESHOLD = 3.5"

definition MAX_ATTEMPTS :: nat where
  "MAX_ATTEMPTS = 3"

text \<open>The literal of \<open>DYSLEXIC_LETTER_CONFUSIONS\<close>.\<close>

definition letter_confusions_literal :: "(char \<times> char) list" where
  "letter_confusions_literal =
     [(CHR ''b'', CHR ''d''), (CHR ''p'', CHR ''q''), (CHR ''m'', CHR ''w''),
      (CHR ''n'', CHR ''u''), (CHR ''n'', CHR ''r''),
      (CHR ''i'', CHR ''j''), (CHR ''a'', CHR ''e''), (CHR ''s'', CHR ''z''),
      (CHR ''f'', CHR ''t''), (CHR ''c'', CHR ''k''),
      (CHR ''g'', CHR ''q''), (CHR ''h'', CHR ''n''), (CHR ''v'', CHR ''w''),
      (CHR ''b'', CHR ''p''), (CHR ''c'', CHR ''s''),
      (CHR ''d'', CHR ''t''), (CHR ''o'', CHR ''e''), (CHR ''a'', CHR ''o''),
      (CHR ''u'', CHR ''v''), (CHR ''m'', CHR ''n'')]"

text \<open>The literal of \<open>DYSLEXIC_WORD_CONFUSIONS\<close>; the apostrophe is character 39.\<close>

definition word_confusions_literal :: "string list list" where
  "word_confusions_literal =
     [[''was'', ''saw''], [''there'', ''their''], [''here'', ''hear''],
      [''you'', ''your''], [''where'', ''wear''], [''to'', ''too'', ''two''],
      [''here'', ''here''], [''their'', ''there''],
      [''its'', [CHR ''i'', CHR ''t'', CHR 0x27, CHR ''s'']],
      [''where'', ''were''], [''new'', ''knew''],
      [''your'', [CHR ''y'', CHR ''o'', CHR ''u'', CHR 0x27, CHR ''r'', CHR ''e'']],
      [''break'', ''brake''], [''bare'', ''bear''], [''peace'', ''piece''],
      [''right'', ''write''], [''flower'', ''flour''], [''buy'', ''by'', ''bye''],
      [''no'', ''know''], [''for'', ''four''], [''sun'', ''son''],
      [''allowed'', ''aloud''], [''hour'', ''our''], [''blew'', ''blue'']]"

text \<open>
  Loading the vocabulary: the lower-cased words of the corpus, or the empty set when the
  corpus cannot be read (\<open>None\<close>).
\<close>

definition load_vocabulary :: "string list option \<Rightarrow> string set" where
  "load_vocabulary corpus = (case corpus of Some ws \<Rightarrow> set (map lower ws) | None \<Rightarrow> {})"

text \<open>The state once the module is loaded.\<close>

definition module_init :: "string list option \<Rightarrow> globals" where
  "module_init corpus =
     \<lparr> english_vocab = load_vocabulary corpus,
       DYSLEXIC_LETTER_CONFUSIONS = letter_confusions_literal,
       DYSLEXIC_WORD_CONFUSIONS = word_confusions_literal \<rparr>"

subsection \<open>Tokenizer\<close>

text \<open>
  \<open>word_tokenize\<close> is the library's tokenizer; \<open>None\<close> is a call that raises (its
  data files are missing, for instance).
\<close>

type_synonym tokenizer = "string \<Rightarrow> string list option"

definition tokenize_and_clean_text :: "tokenizer \<Rightarrow> string \<Rightarrow> string list" where
  "tokenize_and_clean_text word_tokenize text =
     (case word_tokenize (lower text) of
        Some words \<Rightarrow> filter isalnum words
      | None \<Rightarrow> str_split (lower text))"

text \<open>
  A tokenizer to run the model on: it splits at white space. On text of blank-separated
  words without punctuation the library's tokenizer returns the same tokens.
\<close>

definition whitespace_tokenizer :: tokenizer where
  "whitespace_tokenizer s = Some (str_split s)"

subsection \<open>Scorer\<close>

datatype py_error = IndexError | ZeroDivisionError

text \<open>The loop over \<open>DYSLEXIC_LETTER_CONFUSIONS\<close>; the string \<open>conf_pair[0]\<close> has one
  character, so \<open>conf_pair[0] in word_token\<close> asks whether that character occurs.\<close>

fun letter_confusion_loop :: "(char \<times> char) list \<Rightarrow> string \<Rightarrow> real \<Rightarrow> real" where
  "letter_confusion_loop [] word_token token_score = token_score"
| "letter_confusion_loop (conf_pair # rest) word_token token_score =
     letter_confusion_loop rest word_token
       (if fst conf_pair \<in> set word_token \<and> snd conf_pair \<in> set word_token
        then token_score + 3.0 else token_score)"

text \<open>The loop over \<open>DYSLEXIC_WORD_CONFUSIONS\<close>.\<close>

fun word_confusion_loop :: "string list list \<Rightarrow> string \<Rightarrow> real \<Rightarrow> real" where
  "word_confusion_loop [] word_token token_score = token_score"
| "word_confusion_loop (conf_group # rest) word_token token_score =
     word_confusion_loop rest word_token
       (if word_token \<in> set conf_group then token_score + 4.0 else token_score)"

text \<open>The token's score when the loop body reaches the reversal check.\<close>

definition token_score_before_reversal :: "globals \<Rightarrow> string \<Rightarrow> real" where
  "token_score_before_reversal g word_token =
     word_confusion_loop (DYSLEXIC_WORD_CONFUSIONS g) word_token
       (letter_confusion_loop (DYSLEXIC_LETTER_CONFUSIONS g) word_token
          (if word_token \<notin> english_vocab g then 0 + 3.0 else 0))"

text \<open>\<open>sentence_tokens[0]\<close>\<close>

definition first_item :: "'a list \<Rightarrow> py_error + 'a" where
  "first_item xs = (case xs of [] \<Rightarrow> Inl IndexError | x # _ \<Rightarrow> Inr x)"

text \<open>One run of the loop body: the token's score after the reversal check.\<close>

definition token_score :: "globals \<Rightarrow> string \<Rightarrow> string list \<Rightarrow> py_error + real" where
  "token_score g word_token sentence_tokens =
     (case first_item sentence_tokens of
        Inl e \<Rightarrow> Inl e
      | Inr first \<Rightarrow>
          Inr (if rev word_token = first
               then token_score_before_reversal g word_token + 3.0
               else token_score_before_reversal g word_token))"

text \<open>The loop over \<open>word_tokens\<close>, with \<open>dyslexia_score\<close> as accumulator.\<close>

fun token_loop :: "globals \<Rightarrow> string list \<Rightarrow> string list \<Rightarrow> real \<Rightarrow> py_error + real" where
  "token_loop g [] sentence_tokens dyslexia_score = Inr dyslexia_score"
| "token_loop g (word_token # rest) sentence_tokens dyslexia_score =
     (case token_score g word_token sentence_tokens of
        Inl e \<Rightarrow> Inl e
      | Inr s \<Rightarrow> token_loop g rest sentence_tokens (dyslexia_score + s))"

text \<open>\<open>dyslexia_score / len(word_tokens)\<close>\<close>

definition true_div :: "real \<Rightarrow> nat \<Rightarrow> py_error + real" where
  "true_div x n = (if n = 0 then Inl ZeroDivisionError else Inr (x / real n))"

text \<open>The loop and the division that follows it, with no guard before them.\<close>

definition score_tokens :: "globals \<Rightarrow> string list \<Rightarrow> string list \<Rightarrow> py_error + real" where
  "score_tokens g word_tokens sentence_tokens =
     (case token_loop g word_tokens sentence_tokens 0 of
        Inl e \<Rightarrow> Inl e
      | Inr dyslexia_score \<Rightarrow> true_div dyslexia_score (length word_tokens))"

text \<open>The body of the \<open>try\<close> block.\<close>

definition score_body :: "tokenizer \<Rightarrow> globals \<Rightarrow> string \<Rightarrow> string \<Rightarrow> py_error + real" where
  "score_body word_tokenize g word reference_sentence =
     (let word_tokens = tokenize_and_clean_text word_tokenize word;
          sentence_tokens = tokenize_and_clean_text word_tokenize reference_sentence
      in if word_tokens = [] \<or> sentence_tokens = [] then Inr 0
         else score_tokens g word_tokens sentence_tokens)"

text \<open>The function: an exception of the body is caught and answered with 0.\<close>

definition calculate_word_dyslexia_score ::
    "tokenizer \<Rightarrow> globals \<Rightarrow> string \<Rightarrow> string \<Rightarrow> real" where
  "calculate_word_dyslexia_score word_tokenize g word reference_sentence =
     (case score_body word_tokenize g word reference_sentence of
        Inl e \<Rightarrow> 0
      | Inr score \<Rightarrow> score)"

subsection \<open>The scorer as a program over the module state\<close>

text \<open>
  The same function once more, now as a program that runs in the module state: every
  evaluation of a module-level name is a read of the state at the place where the source
  evaluates it (\<open>english_vocab\<close> and each table once for every token), and a statement
  that assigned to a module-level name or changed one of the three objects would be a
  write. The source has no such statement; its assignments are to the local names
  \<open>word_tokens\<close>, \<open>sentence_tokens\<close>, \<open>dyslexia_score\<close> and \<open>token_score\<close>, which
  are values of the program. The loops over the tables work on the list just read.
\<close>

definition read_global :: "(globals \<Rightarrow> 'a) \<Rightarrow> (globals, 'a) state" where
  "read_global name = State_Monad.bind State_Monad.get (\<lambda>g. State_Monad.return (name g))"

definition token_score_st :: "string \<Rightarrow> string list \<Rightarrow> (globals, py_error + real) state" where
  "token_score_st word_token sentence_tokens = do {
     vocab \<leftarrow> read_global english_vocab;
     let token_score = (if word_token \<notin> vocab then 0 + 3.0 else 0);
     conf_pairs \<leftarrow> read_global DYSLEXIC_LETTER_CONFUSIONS;
     let token_score = letter_confusion_loop conf_pairs word_token token_score;
     conf_groups \<leftarrow> read_global DYSLEXIC_WORD_CONFUSIONS;
     let token_score = word_confusion_loop conf_groups word_token token_score;
     State_Monad.return
       (case first_item sentence_tokens of
          Inl e \<Rightarrow> Inl e
        | Inr first \<Rightarrow>
            Inr (if rev word_token = first then token_score + 3.0 else token_score))
   }"

fun token_loop_st ::
    "string list \<Rightarrow> string list \<Rightarrow> real \<Rightarrow> (globals, py_error + real) state" where
  "token_loop_st [] sentence_tokens dyslexia_score = State_Monad.return (Inr dyslexia_score)"
| "token_loop_st (word_token # rest) sentence_tokens dyslexia_score = do {
     r \<leftarrow> token_score_st word_token sentence_tokens;
     case r of
       Inl e \<Rightarrow> State_Monad.return (Inl e)
     | Inr s \<Rightarrow> token_loop_st rest sentence_tokens (dyslexia_score + s)
   }"

definition calculate_word_dyslexia_score_st ::
    "tokenizer \<Rightarrow> string \<Rightarrow> string \<Rightarrow> (globals, real) state" where
  "calculate_word_dyslexia_score_st word_tokenize word reference_sentence = do {
     let word_tokens = tokenize_and_clean_text word_tokenize word;
     let sentence_tokens = tokenize_and_clean_text word_tokenize reference_sentence;
     if word_tokens = [] \<or> sentence_tokens = [] then State_Monad.return 0
     else do {
       r \<leftarrow> token_loop_st word_tokens sentence_tokens 0;
       State_Monad.return
         (case r of
            Inl e \<Rightarrow> 0
          | Inr dyslexia_score \<Rightarrow>
              (case true_div dyslexia_score (length word_tokens) of
                 Inl e \<Rightarrow> 0
               | Inr score \<Rightarrow> score))
     }
   }"

text \<open>A run of calls, one after the other in the same module state; the scores in order.\<close>

fun scorer_calls :: "tokenizer \<Rightarrow> (string \<times> string) list \<Rightarrow> (globals, real list) state" where
  "scorer_calls word_tokenize [] = State_Monad.return []"
| "scorer_calls word_tokenize (args # rest) = do {
     score \<leftarrow> calculate_word_dyslexia_score_st word_tokenize (fst args) (snd args);
     scores \<leftarrow> scorer_calls word_tokenize rest;
     State_Monad.return (score # scores)
   }"

subsection \<open>Floats of the report\<close>

text \<open>
  The scores of a report request are floats the client sends: any double, an infinity or
  NaN. \<open>Finite x\<close> is the double whose value is \<open>x\<close>. Their sum and the quotient by the
  number of scores are operations of the interpreter, with its rounding, its overflow to
  an infinity and its way of summing a list; they are parameters here. The comparison of
  two floats is exact, so it is defined: NaN is not at least anything.
\<close>

datatype pyfloat = Finite real | PosInf | NegInf | NaN

record float_arith =
  float_sum :: "pyfloat list \<Rightarrow> pyfloat"
  float_div :: "pyfloat \<Rightarrow> nat \<Rightarrow> pyfloat"

text \<open>\<open>x >= t\<close> for a float \<open>x\<close> and a finite \<open>t\<close>\<close>

fun float_ge :: "pyfloat \<Rightarrow> real \<Rightarrow> bool" where
  "float_ge (Finite x) t = (x \<ge> t)"
| "float_ge PosInf t = True"
| "float_ge NegInf t = False"
| "float_ge NaN t = False"

text \<open>
  An arithmetic to run the model on: double arithmetic without rounding. It returns what
  the interpreter returns whenever every partial sum and the quotient are doubles.
\<close>

fun exact_add :: "pyfloat \<Rightarrow> pyfloat \<Rightarrow> pyfloat" where
  "exact_add NaN y = NaN"
| "exact_add x NaN = NaN"
| "exact_add PosInf NegInf = NaN"
| "exact_add NegInf PosInf = NaN"
| "exact_add PosInf y = PosInf"
| "exact_add x PosInf = PosInf"
| "exact_add NegInf y = NegInf"
| "exact_add x NegInf = NegInf"
| "exact_add (Finite x) (Finite y) = Finite (x + y)"

fun exact_div :: "pyfloat \<Rightarrow> nat \<Rightarrow> pyfloat" where
  "exact_div (Finite x) n = Finite (x / real n)"
| "exact_div x n = x"

definition exact_arith :: float_arith where
  "exact_arith = \<lparr> float_sum = foldl exact_add (Finite 0), float_div = exact_div \<rparr>"

subsection \<open>Routes\<close>

text \<open>
  A response is the status code and the JSON object that \<open>jsonify\<close> is given, as the
  list of its members. A request body is the parsed object with the fields the handler
  reads (the field \<open>json_k\<close> is the key \<open>k\<close>), \<open>None\<close> for a key that is absent; the
  body as a whole is \<open>None\<close> when \<open>request.json\<close> raises or gives a value the handler
  cannot read, which the handler's \<open>except\<close> answers with status 500.
\<close>

datatype json = JStr string | JNum pyfloat | JBool bool

type_synonym response = "nat \<times> (string \<times> json) list"

record analyze_request =
  json_userText :: "string option"
  json_sentence :: "string option"

text \<open>\<open>data.get(key, default)\<close>\<close>

definition get_default :: "'a option \<Rightarrow> 'a \<Rightarrow> 'a" where
  "get_default field d = (case field of Some v \<Rightarrow> v | None \<Rightarrow> d)"

definition analyze_response ::
    "tokenizer \<Rightarrow> globals \<Rightarrow> analyze_request option \<Rightarrow> response" where
  "analyze_response word_tokenize g request_json =
     (case request_json of
        None \<Rightarrow> (500, [(''error'', JStr ''Error processing response'')])
      | Some data \<Rightarrow>
          (let user_text = strip (get_default (json_userText data) []);
               reference_sentence = strip (get_default (json_sentence data) [])
           in if user_text = [] \<or> reference_sentence = []
              then (200, [(''error'', JStr ''Invalid input'')])
              else (200, [(''score'',
                            JNum (Finite (calculate_word_dyslexia_score word_tokenize g
                                    user_text reference_sentence))),
                          (''isValid'', JBool True)])))"

text \<open>
  What \<open>generate_pdf_report\<close> needs from outside the module: the clock, as the
  formatted time stamp, and the canvas, as the test whether a document can be created,
  drawn and saved under a file name. The drawing itself writes to the canvas only.
\<close>

record pdf_env =
  timestamp :: string
  canvas_writes :: "string \<Rightarrow> bool"

definition generate_pdf_report ::
    "pdf_env \<Rightarrow> string \<times> string \<Rightarrow> string list \<Rightarrow> pyfloat list \<Rightarrow> string option" where
  "generate_pdf_report env user_data responses scores =
     (let filename = ''static/reports/dyslexia_report_'' @ fst user_data @ ''_''
                       @ timestamp env @ ''.pdf''
      in if canvas_writes env filename then Some filename else None)"

record report_request =
  json_userName :: "string option"
  json_userId :: "string option"
  json_responses :: "string list option"
  json_scores :: "pyfloat list option"

definition verdict_positive :: string where
  "verdict_positive = ''Likelihood of dyslexia detected.''"

definition verdict_negative :: string where
  "verdict_negative = ''No significant signs of dyslexia detected.''"

text \<open>
  The guard, the average and the verdict of \<open>generate_final_report\<close>: the error message,
  or \<open>avg_score\<close> and \<open>verdict\<close>. The guard makes \<open>len(scores)\<close> positive.
\<close>

definition aggregate ::
    "float_arith \<Rightarrow> string list \<Rightarrow> pyfloat list \<Rightarrow> string + pyfloat \<times> string" where
  "aggregate fa responses scores =
     (if responses = [] \<or> scores = [] then Inl ''Insufficient data''
      else (let avg_score = float_div fa (float_sum fa scores) (length scores);
                verdict = (if float_ge avg_score DYSLEXIA_SCORE_THRESHOLD
                           then verdict_positive else verdict_negative)
            in Inr (avg_score, verdict)))"

definition generate_final_report ::
    "float_arith \<Rightarrow> pdf_env \<Rightarrow> report_request option \<Rightarrow> response" where
  "generate_final_report fa env request_json =
     (case request_json of
        None \<Rightarrow> (500, [(''error'', JStr ''Error generating report'')])
      | Some data \<Rightarrow>
          (let user_data = (get_default (json_userName data) ''Unknown'',
                            get_default (json_userId data) ''Unknown'');
               responses = get_default (json_responses data) [];
               scores = get_default (json_scores data) []
           in case aggregate fa responses scores of
                Inl msg \<Rightarrow> (200, [(''error'', JStr msg)])
              | Inr (avg_score, verdict) \<Rightarrow>
                  (case generate_pdf_report env user_data responses scores of
                     None \<Rightarrow> (500, [(''error'', JStr ''Error generating PDF report'')])
                   | Some pdf_path \<Rightarrow>
                       (200, [(''avgScore'', JNum avg_score),
                              (''verdict'', JStr verdict),
                              (''pdfPath'', JStr pdf_path)]))))"

text \<open>An environment to run the model on: a fixed clock and a canvas that always writes.\<close>

definition working_env :: pdf_env where
  "working_env = \<lparr> timestamp = ''20240101_120000'', canvas_writes = (\<lambda>filename. True) \<rparr>"

subsection \<open>The scorer as the specification words it\<close>

text \<open>
  Steps 3a to 3c of the specification: 3.0 for a token outside the vocabulary, 3.0 for
  every letter pair of the table whose two characters both occur in the token, 4.0 for
  every word group of the table that lists the token.
\<close>

definition penalty_before_reversal_spec :: "globals \<Rightarrow> string \<Rightarrow> real" where
  "penalty_before_reversal_spec g t =
     (if t \<in> english_vocab g then 0 else 3.0)
     + 3.0 * real (length (filter (\<lambda>(x, y). x \<in> set t \<and> y \<in> set t)
                             (DYSLEXIC_LETTER_CONFUSIONS g)))
     + 4.0 * real (length (filter (\<lambda>conf_group. t \<in> set conf_group)
                             (DYSLEXIC_WORD_CONFUSIONS g)))"

text \<open>
  Steps 3d and 3e: the penalty of the token \<open>t\<close> when \<open>first\<close> is the first token of
  the reference sentence.
\<close>

definition token_penalty :: "globals \<Rightarrow> string \<Rightarrow> string \<Rightarrow> real" where
  "token_penalty g first t =
     token_score_before_reversal g t + (if rev t = first then 3.0 else 0)"

section \<open>Properties of the scorer\<close>

subsection \<open>The loops in closed form\<close>

lemma letter_confusion_loop_count:
  "letter_confusion_loop ps t s =
     s + 3 * real (length (filter (\<lambda>(x, y). x \<in> set t \<and> y \<in> set t) ps))"
  by (induction ps arbitrary: s) (auto simp: case_prod_beta)

lemma word_confusion_loop_count:
  "word_confusion_loop gs t s = s + 4 * real (length (filter (\<lambda>grp. t \<in> set grp) gs))"
  by (induction gs arbitrary: s) auto

lemma token_score_before_reversal_nonneg: "0 \<le> token_score_before_reversal g t"
  by (simp add: token_score_before_reversal_def word_confusion_loop_count
      letter_confusion_loop_count)

lemma token_penalty_nonneg: "0 \<le> token_penalty g first t"
  using token_score_before_reversal_nonneg [of g t] by (simp add: token_penalty_def)

lemma token_score_Cons:
  "token_score g t (first # rest) = Inr (token_penalty g first t)"
  by (simp add: token_score_def first_item_def token_penalty_def)

lemma token_loop_Cons:
  "token_loop g ws (first # rest) acc =
     Inr (acc + sum_list (map (token_penalty g first) ws))"
  by (induction ws arbitrary: acc) (simp_all add: token_score_Cons add.assoc)

lemma score_tokens_Cons:
  "ws \<noteq> [] \<Longrightarrow> score_tokens g ws (first # rest) =
     Inr (sum_list (map (token_penalty g first) ws) / real (length ws))"
  by (simp add: score_tokens_def token_loop_Cons true_div_def)

lemma score_nonempty:
  assumes "tokenize_and_clean_text wt word = ws" "ws \<noteq> []"
    and "tokenize_and_clean_text wt ref = first # rest"
  shows "calculate_word_dyslexia_score wt g word ref =
     sum_list (map (token_penalty g first) ws) / real (length ws)"
  using assms
  by (simp add: calculate_word_dyslexia_score_def score_body_def score_tokens_Cons)

lemma score_empty:
  "tokenize_and_clean_text wt word = [] \<or> tokenize_and_clean_text wt ref = [] \<Longrightarrow>
   calculate_word_dyslexia_score wt g word ref = 0"
  by (auto simp add: calculate_word_dyslexia_score_def score_body_def)

text \<open>Unfolding the text primitives evaluates the tokenizer on a literal.\<close>

lemmas text_eval =
  tokenize_and_clean_text_def whitespace_tokenizer_def lower_def lower_char_def
  ascii_uppercase_def ascii_lowercase_def digits_def latin1_uppercase_def
  latin1_lowercase_def latin1_other_alnum_def str_split_def isspace_def
  isalnum_def isalnum_char_def

lemmas table_eval =
  module_init_def load_vocabulary_def letter_confusions_literal_def
  word_confusions_literal_def

subsection \<open>Penalty of a token before the reversal check\<close>

text \<open>
  Claim C1. When the loop body reaches the reversal check, the score of the token is
  what the specification says: 3.0 if the token is not in the vocabulary, plus 3.0 for
  each entry of the letter table whose two characters both occur in the token, plus 4.0
  for each entry of the word table that contains the token; every entry of both tables
  is counted, none ends the loop. The letter table of the loaded module has 20 entries.
\<close>

theorem token_score_before_reversal_is_spec:
  "token_score_before_reversal g t = penalty_before_reversal_spec g t
   \<and> length (DYSLEXIC_LETTER_CONFUSIONS (module_init corpus)) = 20"
  by (simp add: token_score_before_reversal_def penalty_before_reversal_spec_def
      word_confusion_loop_count letter_confusion_loop_count module_init_def
      letter_confusions_literal_def)

text \<open>
  The token \<open>there\<close>, in the vocabulary, is listed by two groups of the table and has
  no letter pair: its score is 8.
\<close>

theorem token_score_before_reversal_is_spec_witness:
  "token_score_before_reversal (module_init (Some [''There''])) ''there'' = 8"
  using token_score_before_reversal_is_spec [of "module_init (Some [''There''])" "''there''" None]
  by (simp add: penalty_before_reversal_spec_def table_eval lower_def lower_char_def
      ascii_uppercase_def ascii_lowercase_def
      latin1_uppercase_def latin1_lowercase_def)

subsection \<open>Evaluations on concrete text\<close>

lemma tok_empty: "tokenize_and_clean_text whitespace_tokenizer [] = []"
  by (simp add: text_eval)

lemma tok_tac: "tokenize_and_clean_text whitespace_tokenizer ''tac'' = [''tac'']"
  by (simp add: text_eval)

lemma tok_cat: "tokenize_and_clean_text whitespace_tokenizer ''cat'' = [''cat'']"
  by (simp add: text_eval)

lemma tok_cat_cat:
  "tokenize_and_clean_text whitespace_tokenizer ''cat cat'' = [''cat'', ''cat'']"
  by (simp add: text_eval)

lemma tok_cat_sat:
  "tokenize_and_clean_text whitespace_tokenizer ''cat sat on mat'' =
     [''cat'', ''sat'', ''on'', ''mat'']"
  by (simp add: text_eval)

lemma tok_mat_sat:
  "tokenize_and_clean_text whitespace_tokenizer ''mat sat on cat'' =
     [''mat'', ''sat'', ''on'', ''cat'']"
  by (simp add: text_eval)

lemma tsbr_tac: "token_score_before_reversal (module_init (Some [''cat''])) ''tac'' = 3"
  by (simp add: token_score_before_reversal_def table_eval lower_def lower_char_def
      ascii_uppercase_def ascii_lowercase_def
      latin1_uppercase_def latin1_lowercase_def)

lemma tsbr_cat: "token_score_before_reversal (module_init (Some [''cat''])) ''cat'' = 0"
  by (simp add: token_score_before_reversal_def table_eval lower_def lower_char_def
      ascii_uppercase_def ascii_lowercase_def
      latin1_uppercase_def latin1_lowercase_def)

lemma strip_blank: "strip ''  '' = []"
  by (simp add: strip_def isspace_def)

lemma strip_tac: "strip '' tac '' = ''tac''"
  by (simp add: strip_def isspace_def)

lemma strip_cat_sat: "strip ''cat sat on mat'' = ''cat sat on mat''"
  by (simp add: strip_def isspace_def)

lemma score_tac_cat_sat:
  "calculate_word_dyslexia_score whitespace_tokenizer (module_init (Some [''cat'']))
     ''tac'' ''cat sat on mat'' = 6"
  using score_nonempty [OF tok_tac _ tok_cat_sat, of "module_init (Some [''cat''])"]
  by (simp add: token_penalty_def tsbr_tac)

subsection \<open>Reversal check\<close>

text \<open>
  Claim C2. For every token \<open>t\<close> of the response the reversal penalty 3.0 is added
  exactly when the reverse of \<open>t\<close> is the first token of the reference sentence: this
  holds for one run of the loop body and, with the same first token, for every token the
  loop visits, whatever its position. For a tokenizer that yields the expected words on
  the three texts, the score of \<open>tac\<close> against \<open>cat sat on mat\<close> is the token's
  other penalties plus 3.0, and against \<open>mat sat on cat\<close> it is the other penalties
  alone, although \<open>cat\<close> occurs later in that sentence.
\<close>

theorem reversal_penalty_first_token:
  "token_score g t (first # rest) =
     Inr (token_score_before_reversal g t + (if rev t = first then 3.0 else 0))
   \<and> token_loop g ws (first # rest) acc =
     Inr (acc + (\<Sum>t\<leftarrow>ws. token_score_before_reversal g t
                            + (if rev t = first then 3.0 else 0)))
   \<and> (tokenize_and_clean_text wt ''tac'' = [''tac'']
      \<and> tokenize_and_clean_text wt ''cat sat on mat'' = [''cat'', ''sat'', ''on'', ''mat'']
      \<and> tokenize_and_clean_text wt ''mat sat on cat'' = [''mat'', ''sat'', ''on'', ''cat'']
      \<longrightarrow> calculate_word_dyslexia_score wt g ''tac'' ''cat sat on mat'' =
            token_score_before_reversal g ''tac'' + 3.0
        \<and> calculate_word_dyslexia_score wt g ''tac'' ''mat sat on cat'' =
            token_score_before_reversal g ''tac'')"
proof (intro conjI impI)
  show "token_score g t (first # rest) =
     Inr (token_score_before_reversal g t + (if rev t = first then 3.0 else 0))"
    by (simp add: token_score_Cons token_penalty_def)
  show "token_loop g ws (first # rest) acc =
     Inr (acc + (\<Sum>t\<leftarrow>ws. token_score_before_reversal g t
                            + (if rev t = first then 3.0 else 0)))"
    by (simp add: token_loop_Cons token_penalty_def [abs_def])
next
  assume h: "tokenize_and_clean_text wt ''tac'' = [''tac'']
      \<and> tokenize_and_clean_text wt ''cat sat on mat'' = [''cat'', ''sat'', ''on'', ''mat'']
      \<and> tokenize_and_clean_text wt ''mat sat on cat'' = [''mat'', ''sat'', ''on'', ''cat'']"
  from h show "calculate_word_dyslexia_score wt g ''tac'' ''cat sat on mat'' =
            token_score_before_reversal g ''tac'' + 3.0"
    using score_nonempty [of wt "''tac''" "[''tac'']" "''cat sat on mat''" "''cat''"
        "[''sat'', ''on'', ''mat'']" g]
    by (simp add: token_penalty_def)
  from h show "calculate_word_dyslexia_score wt g ''tac'' ''mat sat on cat'' =
            token_score_before_reversal g ''tac''"
    using score_nonempty [of wt "''tac''" "[''tac'']" "''mat sat on cat''" "''mat''"
        "[''sat'', ''on'', ''cat'']" g]
    by (simp add: token_penalty_def)
qed

text \<open>With \<open>cat\<close> as the whole vocabulary, \<open>tac\<close> scores 3 + 3 and 3.\<close>

theorem reversal_penalty_first_token_witness:
  "tokenize_and_clean_text whitespace_tokenizer ''tac'' = [''tac'']
   \<and> tokenize_and_clean_text whitespace_tokenizer ''cat sat on mat'' =
       [''cat'', ''sat'', ''on'', ''mat'']
   \<and> tokenize_and_clean_text whitespace_tokenizer ''mat sat on cat'' =
       [''mat'', ''sat'', ''on'', ''cat'']
   \<and> calculate_word_dyslexia_score whitespace_tokenizer (module_init (Some [''cat'']))
       ''tac'' ''cat sat on mat'' = 6
   \<and> calculate_word_dyslexia_score whitespace_tokenizer (module_init (Some [''cat'']))
       ''tac'' ''mat sat on cat'' = 3"
  using reversal_penalty_first_token [of "module_init (Some [''cat''])" "''tac''" "''cat''"
      "[]" "[]" 0 whitespace_tokenizer]
    tok_tac tok_cat_sat tok_mat_sat tsbr_tac
  by simp

subsection \<open>The score is the mean penalty\<close>

text \<open>
  Claim C3. When both token lists are non-empty the returned score is the sum of the
  penalties of the response tokens divided by their number. Hence, when all response
  tokens are the same token \<open>t\<close>, a response whose tokens are those tokens twice over
  has the same score, against every reference sentence; \<open>cat\<close> and \<open>cat cat\<close> are
  the instance with one token.
\<close>

theorem score_is_mean_penalty:
  "(tokenize_and_clean_text wt word = ws \<and> ws \<noteq> []
      \<and> tokenize_and_clean_text wt ref = first # rest
     \<longrightarrow> calculate_word_dyslexia_score wt g word ref =
           (\<Sum>t\<leftarrow>ws. token_penalty g first t) / real (length ws))
   \<and> (tokenize_and_clean_text wt word = replicate n t
      \<and> tokenize_and_clean_text wt word2 =
          tokenize_and_clean_text wt word @ tokenize_and_clean_text wt word
     \<longrightarrow> calculate_word_dyslexia_score wt g word2 ref =
           calculate_word_dyslexia_score wt g word ref)"
proof (intro conjI impI)
  assume "tokenize_and_clean_text wt word = ws \<and> ws \<noteq> []
      \<and> tokenize_and_clean_text wt ref = first # rest"
  then show "calculate_word_dyslexia_score wt g word ref =
           (\<Sum>t\<leftarrow>ws. token_penalty g first t) / real (length ws)"
    using score_nonempty [of wt word ws ref first rest g] by simp
next
  assume h: "tokenize_and_clean_text wt word = replicate n t
      \<and> tokenize_and_clean_text wt word2 =
          tokenize_and_clean_text wt word @ tokenize_and_clean_text wt word"
  then have w1: "tokenize_and_clean_text wt word = replicate n t"
    and w2: "tokenize_and_clean_text wt word2 = replicate (n + n) t"
    by (simp_all add: replicate_add)
  show "calculate_word_dyslexia_score wt g word2 ref =
           calculate_word_dyslexia_score wt g word ref"
  proof (cases "n = 0 \<or> tokenize_and_clean_text wt ref = []")
    case True
    then have "tokenize_and_clean_text wt word = [] \<or> tokenize_and_clean_text wt ref = []"
      and "tokenize_and_clean_text wt word2 = [] \<or> tokenize_and_clean_text wt ref = []"
      using w1 w2 by auto
    then show ?thesis by (simp add: score_empty)
  next
    case False
    then obtain first rest where ref: "tokenize_and_clean_text wt ref = first # rest"
      and n: "0 < n"
      by (cases "tokenize_and_clean_text wt ref") auto
    have s1: "calculate_word_dyslexia_score wt g word ref = token_penalty g first t"
      using score_nonempty [OF w1 _ ref, of g] n
      by (simp add: sum_list_replicate map_replicate)
    have s2: "calculate_word_dyslexia_score wt g word2 ref = token_penalty g first t"
      using score_nonempty [OF w2 _ ref, of g] n
      by (simp add: sum_list_replicate map_replicate algebra_simps)
    show ?thesis by (simp add: s1 s2)
  qed
qed

theorem score_is_mean_penalty_witness:
  "tokenize_and_clean_text whitespace_tokenizer ''cat'' = [''cat'']
   \<and> [''cat''] \<noteq> []
   \<and> tokenize_and_clean_text whitespace_tokenizer ''cat sat on mat'' =
       [''cat'', ''sat'', ''on'', ''mat'']
   \<and> calculate_word_dyslexia_score whitespace_tokenizer (module_init (Some [''cat'']))
       ''cat'' ''cat sat on mat'' = 0
   \<and> tokenize_and_clean_text whitespace_tokenizer ''cat'' = replicate 1 ''cat''
   \<and> tokenize_and_clean_text whitespace_tokenizer ''cat cat'' =
       tokenize_and_clean_text whitespace_tokenizer ''cat''
       @ tokenize_and_clean_text whitespace_tokenizer ''cat''
   \<and> calculate_word_dyslexia_score whitespace_tokenizer (module_init (Some [''cat'']))
       ''cat cat'' ''cat sat on mat''
     = calculate_word_dyslexia_score whitespace_tokenizer (module_init (Some [''cat'']))
       ''cat'' ''cat sat on mat''"
  using score_is_mean_penalty [of whitespace_tokenizer "''cat''" "[''cat'']"
      "''cat sat on mat''" "''cat''" "[''sat'', ''on'', ''mat'']"
      "module_init (Some [''cat''])" 1 "''cat''" "''cat cat''"]
    tok_cat tok_cat_cat tok_cat_sat tsbr_cat
  by (simp add: token_penalty_def)

subsection \<open>Empty token lists\<close>

text \<open>
  Claim C4. If the response or the reference sentence has no token, the score is 0. The
  empty text has no token when the library's tokenizer raises on it or returns no word
  for it; then the score of the empty response against anything, and of anything against
  the empty reference, is 0.
\<close>

theorem empty_tokens_score_zero:
  "(tokenize_and_clean_text wt word = [] \<or> tokenize_and_clean_text wt ref = []
      \<longrightarrow> calculate_word_dyslexia_score wt g word ref = 0)
   \<and> (wt [] = None \<or> wt [] = Some []
      \<longrightarrow> calculate_word_dyslexia_score wt g [] anything = 0
        \<and> calculate_word_dyslexia_score wt g anything [] = 0)"
proof (intro conjI impI)
  assume "tokenize_and_clean_text wt word = [] \<or> tokenize_and_clean_text wt ref = []"
  then show "calculate_word_dyslexia_score wt g word ref = 0"
    by (rule score_empty)
next
  assume "wt [] = None \<or> wt [] = Some []"
  then have e: "tokenize_and_clean_text wt [] = []"
    by (auto simp: tokenize_and_clean_text_def lower_def str_split_def)
  show "calculate_word_dyslexia_score wt g [] anything = 0"
    by (simp add: score_empty e)
  show "calculate_word_dyslexia_score wt g anything [] = 0"
    by (simp add: score_empty e)
qed

theorem empty_tokens_score_zero_witness:
  "tokenize_and_clean_text whitespace_tokenizer [] = []
   \<and> whitespace_tokenizer [] = Some []
   \<and> calculate_word_dyslexia_score whitespace_tokenizer (module_init None)
       [] ''cat sat on mat'' = 0
   \<and> calculate_word_dyslexia_score whitespace_tokenizer (module_init None)
       ''cat sat on mat'' [] = 0"
  using empty_tokens_score_zero [of whitespace_tokenizer "[]" "''cat sat on mat''"
      "module_init None" "''cat sat on mat''"]
    tok_empty
  by (simp add: whitespace_tokenizer_def str_split_def)

subsection \<open>The score is never negative\<close>

text \<open>
  Claim C7. For every response and every reference sentence, whatever the tokenizer, the
  vocabulary and the tables, the returned score is at least 0.
\<close>

theorem score_nonneg: "0 \<le> calculate_word_dyslexia_score wt g word ref"
proof (cases "tokenize_and_clean_text wt word = [] \<or> tokenize_and_clean_text wt ref = []")
  case True
  then show ?thesis by (simp add: score_empty)
next
  case False
  then obtain first rest where ref: "tokenize_and_clean_text wt ref = first # rest"
    and ws: "tokenize_and_clean_text wt word \<noteq> []"
    by (cases "tokenize_and_clean_text wt ref") auto
  have "0 \<le> sum_list (map (token_penalty g first) (tokenize_and_clean_text wt word))"
    by (rule sum_list_nonneg) (auto simp: token_penalty_nonneg)
  then show ?thesis
    using score_nonempty [OF refl ws ref, of g] by simp
qed

theorem score_nonneg_witness:
  "0 \<le> calculate_word_dyslexia_score whitespace_tokenizer (module_init (Some [''cat'']))
          ''tac'' ''cat sat on mat''
   \<and> calculate_word_dyslexia_score whitespace_tokenizer (module_init (Some [''cat'']))
          ''tac'' ''cat sat on mat'' = 6"
  using score_nonneg [of whitespace_tokenizer "module_init (Some [''cat''])" "''tac''"
      "''cat sat on mat''"] score_tac_cat_sat
  by simp

subsection \<open>The guard and the two partial operations\<close>

text \<open>
  Claim C10. When both token lists are non-empty, reading the first token of the reference
  sentence succeeds and the division by the number of response tokens succeeds, so the loop
  and the division return a score and raise neither error. The body of the scorer guards
  them with exactly that test, so it returns a score on every input. Without the guard
  both errors occur: the division fails on an empty response, the index on an empty
  reference.
\<close>

theorem guard_makes_partial_operations_safe:
  "(word_tokens \<noteq> [] \<and> sentence_tokens \<noteq> [] \<longrightarrow>
      first_item sentence_tokens = Inr (hd sentence_tokens)
      \<and> true_div dyslexia_score (length word_tokens) =
          Inr (dyslexia_score / real (length word_tokens))
      \<and> (\<exists>score. score_tokens g word_tokens sentence_tokens = Inr score))
   \<and> (\<exists>score. score_body wt g word ref = Inr score)
   \<and> score_tokens g [] sentence_tokens = Inl ZeroDivisionError
   \<and> score_tokens g (t # ts) [] = Inl IndexError"
proof (intro conjI impI)
  assume h: "word_tokens \<noteq> [] \<and> sentence_tokens \<noteq> []"
  then obtain first rest where ss: "sentence_tokens = first # rest"
    by (cases sentence_tokens) auto
  show "first_item sentence_tokens = Inr (hd sentence_tokens)"
    by (simp add: ss first_item_def)
  show "true_div dyslexia_score (length word_tokens) =
          Inr (dyslexia_score / real (length word_tokens))"
    using h by (simp add: true_div_def)
  show "\<exists>score. score_tokens g word_tokens sentence_tokens = Inr score"
    using h by (simp add: ss score_tokens_Cons)
next
  show "\<exists>score. score_body wt g word ref = Inr score"
  proof (cases "tokenize_and_clean_text wt word = [] \<or> tokenize_and_clean_text wt ref = []")
    case True
    then show ?thesis by (auto simp: score_body_def)
  next
    case False
    then obtain first rest where "tokenize_and_clean_text wt ref = first # rest"
      by (cases "tokenize_and_clean_text wt ref") auto
    with False show ?thesis by (simp add: score_body_def score_tokens_Cons Let_def)
  qed
next
  show "score_tokens g [] sentence_tokens = Inl ZeroDivisionError"
    by (simp add: score_tokens_def true_div_def)
  show "score_tokens g (t # ts) [] = Inl IndexError"
    by (simp add: score_tokens_def token_score_def first_item_def)
qed

theorem guard_makes_partial_operations_safe_witness:
  "[''tac''] \<noteq> [] \<and> [''cat'', ''sat''] \<noteq> []
   \<and> first_item [''cat'', ''sat''] = Inr ''cat''
   \<and> true_div 6 (length [''tac'']) = Inr 6
   \<and> score_tokens (module_init (Some [''cat''])) [''tac''] [''cat'', ''sat''] = Inr 6"
  using guard_makes_partial_operations_safe
    [of "[''tac'']" "[''cat'', ''sat'']" 6 "module_init (Some [''cat''])"]
    score_tokens_Cons [of "[''tac'']" "module_init (Some [''cat''])" "''cat''" "[''sat'']"]
    tsbr_tac
  by (simp add: token_penalty_def)

subsection \<open>Determinism\<close>

text \<open>
  The program over the module state returns what the function of the state returns, and
  leaves the state as it found it. Each loop needs its induction: the next token is scored
  in the state the previous one left.
\<close>

lemma run_token_score_st:
  "run_state (token_score_st t ss) g = (token_score g t ss, g)"
  by (simp add: token_score_st_def read_global_def token_score_def
      token_score_before_reversal_def Let_def split: sum.split)

lemma run_token_loop_st:
  "run_state (token_loop_st ws ss d) g = (token_loop g ws ss d, g)"
  by (induction ws arbitrary: d) (simp_all add: run_token_score_st split: sum.split)

lemma run_calculate_word_dyslexia_score_st:
  "run_state (calculate_word_dyslexia_score_st wt word ref) g =
     (calculate_word_dyslexia_score wt g word ref, g)"
  by (simp add: calculate_word_dyslexia_score_st_def calculate_word_dyslexia_score_def
      score_body_def score_tokens_def run_token_loop_st Let_def split: sum.split)

lemma run_scorer_calls:
  "run_state (scorer_calls wt calls) g =
     (map (\<lambda>args. calculate_word_dyslexia_score wt g (fst args) (snd args)) calls, g)"
  by (induction calls) (simp_all add: run_calculate_word_dyslexia_score_st)

text \<open>
  Claim C9. Run in a module state, the scorer leaves the vocabulary and the two tables as
  they were, and its score is a function of the two texts and of that state alone. So does
  a run of calls; two calls of the run with the same response and reference sentence
  return the same score; and a call made after the run returns the score the same call
  returns before it.
\<close>

theorem scorer_deterministic:
  "run_state (calculate_word_dyslexia_score_st wt word ref) g =
     (calculate_word_dyslexia_score wt g word ref, g)
   \<and> snd (run_state (scorer_calls wt calls) g) = g
   \<and> (i < length calls \<and> j < length calls \<and> calls ! i = calls ! j \<longrightarrow>
        fst (run_state (scorer_calls wt calls) g) ! i
        = fst (run_state (scorer_calls wt calls) g) ! j)
   \<and> fst (run_state (calculate_word_dyslexia_score_st wt word ref)
            (snd (run_state (scorer_calls wt calls) g)))
     = fst (run_state (calculate_word_dyslexia_score_st wt word ref) g)"
  by (simp add: run_scorer_calls run_calculate_word_dyslexia_score_st)

theorem scorer_deterministic_witness:
  "(0::nat) < length [(''tac'', ''cat sat on mat''), (''cat'', ''mat''),
                      (''tac'', ''cat sat on mat'')]
   \<and> (2::nat) < length [(''tac'', ''cat sat on mat''), (''cat'', ''mat''),
                        (''tac'', ''cat sat on mat'')]
   \<and> [(''tac'', ''cat sat on mat''), (''cat'', ''mat''), (''tac'', ''cat sat on mat'')] ! 0
       = [(''tac'', ''cat sat on mat''), (''cat'', ''mat''), (''tac'', ''cat sat on mat'')] ! 2
   \<and> fst (run_state (scorer_calls whitespace_tokenizer
            [(''tac'', ''cat sat on mat''), (''cat'', ''mat''), (''tac'', ''cat sat on mat'')])
            (module_init (Some [''cat'']))) ! 0
     = fst (run_state (scorer_calls whitespace_tokenizer
            [(''tac'', ''cat sat on mat''), (''cat'', ''mat''), (''tac'', ''cat sat on mat'')])
            (module_init (Some [''cat'']))) ! 2
   \<and> run_state (calculate_word_dyslexia_score_st whitespace_tokenizer
         ''tac'' ''cat sat on mat'') (module_init (Some [''cat'']))
     = (6, module_init (Some [''cat'']))"
  using scorer_deterministic [of whitespace_tokenizer "''tac''" "''cat sat on mat''"
      "module_init (Some [''cat''])"
      "[(''tac'', ''cat sat on mat''), (''cat'', ''mat''), (''tac'', ''cat sat on mat'')]"
      0 2]
    score_tac_cat_sat
  by (simp del: scorer_calls.simps)

section \<open>Properties of the routes\<close>

subsection \<open>\<open>analyze_response\<close>\<close>

text \<open>
  Claim C6. For a request whose two fields are strings or absent: if the user text or the
  sentence is empty once stripped of white space, the answer has status 200 and the body
  \<open>{"error": "Invalid input"}\<close>; otherwise it has status 200 and the body
  \<open>{"score": s, "isValid": true}\<close>, where \<open>s\<close> is the scorer's result on the two
  stripped texts.
\<close>

theorem analyze_response_contract:
  "(strip (get_default (json_userText data) []) = []
      \<or> strip (get_default (json_sentence data) []) = []
     \<longrightarrow> analyze_response wt g (Some data) = (200, [(''error'', JStr ''Invalid input'')]))
   \<and> (strip (get_default (json_userText data) []) \<noteq> []
      \<and> strip (get_default (json_sentence data) []) \<noteq> []
     \<longrightarrow> analyze_response wt g (Some data) =
           (200, [(''score'', JNum (Finite (calculate_word_dyslexia_score wt g
                     (strip (get_default (json_userText data) []))
                     (strip (get_default (json_sentence data) []))))),
                  (''isValid'', JBool True)]))"
  by (simp add: analyze_response_def Let_def)

text \<open>
  A field of blanks, and one of a no-break space and a next-line character, are empty once
  stripped; \<open>tac\<close> between blanks is scored.
\<close>

lemma strip_nbsp: "strip [CHR 0xA0, CHR 0x85] = []"
  by (simp add: strip_def isspace_def)

theorem analyze_response_contract_witness:
  "strip (get_default (json_userText
       \<lparr>json_userText = Some ''  '', json_sentence = Some ''cat sat on mat''\<rparr>) []) = []
   \<and> analyze_response whitespace_tokenizer (module_init (Some [''cat'']))
        (Some \<lparr>json_userText = Some ''  '', json_sentence = Some ''cat sat on mat''\<rparr>)
       = (200, [(''error'', JStr ''Invalid input'')])
   \<and> strip (get_default (json_userText
       \<lparr>json_userText = Some [CHR 0xA0, CHR 0x85],
        json_sentence = Some ''cat sat on mat''\<rparr>) []) = []
   \<and> analyze_response whitespace_tokenizer (module_init (Some [''cat'']))
        (Some \<lparr>json_userText = Some [CHR 0xA0, CHR 0x85],
               json_sentence = Some ''cat sat on mat''\<rparr>)
       = (200, [(''error'', JStr ''Invalid input'')])
   \<and> strip (get_default (json_userText
       \<lparr>json_userText = Some '' tac '', json_sentence = Some ''cat sat on mat''\<rparr>) []) \<noteq> []
   \<and> strip (get_default (json_sentence
       \<lparr>json_userText = Some '' tac '', json_sentence = Some ''cat sat on mat''\<rparr>) []) \<noteq> []
   \<and> analyze_response whitespace_tokenizer (module_init (Some [''cat'']))
        (Some \<lparr>json_userText = Some '' tac '', json_sentence = Some ''cat sat on mat''\<rparr>)
       = (200, [(''score'', JNum (Finite 6)), (''isValid'', JBool True)])"
  using analyze_response_contract
      [of "\<lparr>json_userText = Some ''  '', json_sentence = Some ''cat sat on mat''\<rparr>"
        whitespace_tokenizer "module_init (Some [''cat''])"]
    analyze_response_contract
      [of "\<lparr>json_userText = Some [CHR 0xA0, CHR 0x85],
            json_sentence = Some ''cat sat on mat''\<rparr>"
        whitespace_tokenizer "module_init (Some [''cat''])"]
    analyze_response_contract
      [of "\<lparr>json_userText = Some '' tac '', json_sentence = Some ''cat sat on mat''\<rparr>"
        whitespace_tokenizer "module_init (Some [''cat''])"]
    strip_blank strip_nbsp strip_tac strip_cat_sat score_tac_cat_sat
  by (simp add: get_default_def)

subsection \<open>Average and verdict\<close>

text \<open>
  Claim C5. With no attempt (an empty list of responses or of scores) the aggregation
  reports \<open>Insufficient data\<close>. With attempts it returns as mean the float quotient of the
  float sum of the scores by their number, and the positive verdict exactly when that mean
  is at least 3.5, the negative one otherwise; for a finite mean \<open>m\<close> the verdict is
  positive exactly when \<open>3.5 \<le> m\<close>. Where float addition and division are exact, as they
  are on 2.0 + 5.0 = 7.0, 7.0 / 2 = 3.5, 1.0 + 1.0 + 1.0 = 3.0 and 3.0 / 3 = 1.0, the
  scores 2.0 and 5.0 give the mean 3.5 and the positive verdict, and three scores 1.0
  give the mean 1.0 and the negative verdict.
\<close>

theorem aggregate_mean_and_verdict:
  "(responses = [] \<or> scores = [] \<longrightarrow>
      aggregate fa responses scores = Inl ''Insufficient data'')
   \<and> (responses \<noteq> [] \<and> scores \<noteq> [] \<longrightarrow>
        (\<exists>verdict.
           aggregate fa responses scores =
             Inr (float_div fa (float_sum fa scores) (length scores), verdict)
           \<and> (verdict = verdict_positive \<longleftrightarrow>
                float_ge (float_div fa (float_sum fa scores) (length scores)) 3.5)
           \<and> (verdict = verdict_negative \<longleftrightarrow>
                \<not> float_ge (float_div fa (float_sum fa scores) (length scores)) 3.5)
           \<and> (float_div fa (float_sum fa scores) (length scores) = Finite m \<longrightarrow>
                (verdict = verdict_positive \<longleftrightarrow> 3.5 \<le> m))))
   \<and> (float_sum fa [Finite 2.0, Finite 5.0] = Finite 7.0
      \<and> float_div fa (Finite 7.0) 2 = Finite 3.5 \<longrightarrow>
        aggregate fa [r1, r2] [Finite 2.0, Finite 5.0] = Inr (Finite 3.5, verdict_positive))
   \<and> (float_sum fa [Finite 1.0, Finite 1.0, Finite 1.0] = Finite 3.0
      \<and> float_div fa (Finite 3.0) 3 = Finite 1.0 \<longrightarrow>
        aggregate fa [r1, r2, r3] [Finite 1.0, Finite 1.0, Finite 1.0] =
          Inr (Finite 1.0, verdict_negative))"
proof (intro conjI impI)
  assume "responses = [] \<or> scores = []"
  then show "aggregate fa responses scores = Inl ''Insufficient data''"
    by (auto simp: aggregate_def)
next
  assume "responses \<noteq> [] \<and> scores \<noteq> []"
  then show "\<exists>verdict.
           aggregate fa responses scores =
             Inr (float_div fa (float_sum fa scores) (length scores), verdict)
           \<and> (verdict = verdict_positive \<longleftrightarrow>
                float_ge (float_div fa (float_sum fa scores) (length scores)) 3.5)
           \<and> (verdict = verdict_negative \<longleftrightarrow>
                \<not> float_ge (float_div fa (float_sum fa scores) (length scores)) 3.5)
           \<and> (float_div fa (float_sum fa scores) (length scores) = Finite m \<longrightarrow>
                (verdict = verdict_positive \<longleftrightarrow> 3.5 \<le> m))"
    by (auto simp: aggregate_def Let_def DYSLEXIA_SCORE_THRESHOLD_def verdict_positive_def
        verdict_negative_def)
next
  assume "float_sum fa [Finite 2.0, Finite 5.0] = Finite 7.0
      \<and> float_div fa (Finite 7.0) 2 = Finite 3.5"
  then show "aggregate fa [r1, r2] [Finite 2.0, Finite 5.0] =
      Inr (Finite 3.5, verdict_positive)"
    by (simp add: aggregate_def Let_def DYSLEXIA_SCORE_THRESHOLD_def numeral_2_eq_2)
next
  assume "float_sum fa [Finite 1.0, Finite 1.0, Finite 1.0] = Finite 3.0
      \<and> float_div fa (Finite 3.0) 3 = Finite 1.0"
  then show "aggregate fa [r1, r2, r3] [Finite 1.0, Finite 1.0, Finite 1.0] =
      Inr (Finite 1.0, verdict_negative)"
    by (simp add: aggregate_def Let_def DYSLEXIA_SCORE_THRESHOLD_def numeral_3_eq_3)
qed

lemma exact_sum_2_5: "float_sum exact_arith [Finite 2.0, Finite 5.0] = Finite 7.0"
  by (simp add: exact_arith_def)

lemma exact_div_7_2: "float_div exact_arith (Finite 7.0) 2 = Finite 3.5"
  by (simp add: exact_arith_def)

lemma exact_sum_1_1_1:
  "float_sum exact_arith [Finite 1.0, Finite 1.0, Finite 1.0] = Finite 3.0"
  by (simp add: exact_arith_def)

lemma exact_div_3_3: "float_div exact_arith (Finite 3.0) 3 = Finite 1.0"
  by (simp add: exact_arith_def)

theorem aggregate_mean_and_verdict_witness:
  "aggregate exact_arith [] [] = Inl ''Insufficient data''
   \<and> [''the cat'', ''a dog''] \<noteq> [] \<and> [Finite 2.0, Finite 5.0] \<noteq> []
   \<and> float_sum exact_arith [Finite 2.0, Finite 5.0] = Finite 7.0
   \<and> float_div exact_arith (Finite 7.0) 2 = Finite 3.5
   \<and> aggregate exact_arith [''the cat'', ''a dog''] [Finite 2.0, Finite 5.0] =
       Inr (Finite 3.5, verdict_positive)
   \<and> float_sum exact_arith [Finite 1.0, Finite 1.0, Finite 1.0] = Finite 3.0
   \<and> float_div exact_arith (Finite 3.0) 3 = Finite 1.0
   \<and> aggregate exact_arith [''a'', ''b'', ''c''] [Finite 1.0, Finite 1.0, Finite 1.0] =
       Inr (Finite 1.0, verdict_negative)"
proof -
  have none: "aggregate exact_arith [] [] = Inl ''Insufficient data''"
    using aggregate_mean_and_verdict [of "[]" "[]" exact_arith] by blast
  have two: "aggregate exact_arith [''the cat'', ''a dog''] [Finite 2.0, Finite 5.0] =
       Inr (Finite 3.5, verdict_positive)"
    using aggregate_mean_and_verdict [of _ _ exact_arith _ "''the cat''" "''a dog''"]
      exact_sum_2_5 exact_div_7_2
    by blast
  have three: "aggregate exact_arith [''a'', ''b'', ''c'']
       [Finite 1.0, Finite 1.0, Finite 1.0] = Inr (Finite 1.0, verdict_negative)"
    using aggregate_mean_and_verdict [of _ _ exact_arith _ "''a''" "''b''" "''c''"]
      exact_sum_1_1_1 exact_div_3_3
    by blast
  show ?thesis
    by (intro conjI none two three exact_sum_2_5 exact_div_7_2 exact_sum_1_1_1
        exact_div_3_3) simp_all
qed

subsection \<open>Length of a session\<close>

text \<open>
  Claim C8 says that report generation works on sessions of at most \<open>MAX_ATTEMPTS\<close> = 3
  attempts, and the module declares \<open>MAX_ATTEMPTS\<close> as the maximum number of attempts
  allowed per assessment. No handler reads it: a request with four responses and four
  scores is answered with status 200, the mean of the four scores, the verdict for that
  mean and the path of the PDF, whatever the float arithmetic; with exact arithmetic the
  mean of 1, 2, 3 and 6 is 3 and the verdict is negative.
\<close>

theorem report_accepts_more_than_MAX_ATTEMPTS:
  "MAX_ATTEMPTS < length [Finite 1.0, Finite 2.0, Finite 3.0, Finite 6.0]
   \<and> generate_final_report fa working_env
        (Some \<lparr>json_userName = Some ''Ann'', json_userId = Some ''7'',
               json_responses = Some [''a'', ''b'', ''c'', ''d''],
               json_scores = Some [Finite 1.0, Finite 2.0, Finite 3.0, Finite 6.0]\<rparr>)
      = (200,
         [(''avgScore'',
             JNum (float_div fa
                     (float_sum fa [Finite 1.0, Finite 2.0, Finite 3.0, Finite 6.0]) 4)),
          (''verdict'',
             JStr (if float_ge
                        (float_div fa
                           (float_sum fa [Finite 1.0, Finite 2.0, Finite 3.0, Finite 6.0]) 4)
                        3.5
                   then verdict_positive else verdict_negative)),
          (''pdfPath'', JStr ''static/reports/dyslexia_report_Ann_20240101_120000.pdf'')])
   \<and> generate_final_report exact_arith working_env
        (Some \<lparr>json_userName = Some ''Ann'', json_userId = Some ''7'',
               json_responses = Some [''a'', ''b'', ''c'', ''d''],
               json_scores = Some [Finite 1.0, Finite 2.0, Finite 3.0, Finite 6.0]\<rparr>)
      = (200,
         [(''avgScore'', JNum (Finite 3)),
          (''verdict'', JStr verdict_negative),
          (''pdfPath'', JStr ''static/reports/dyslexia_report_Ann_20240101_120000.pdf'')])"
  by (simp add: generate_final_report_def aggregate_def generate_pdf_report_def
      working_env_def get_default_def MAX_ATTEMPTS_def DYSLEXIA_SCORE_THRESHOLD_def Let_def
      exact_arith_def eval_nat_numeral)

end
